theory Spec2Isabelle
  imports Main "HOL-Library.Word"
begin

unbundle bit_operations_syntax

text \<open>
  The Metris AI chat API: a streaming handler (prompt assembly from knowledge-base
  items and conversation history, and a relay that decodes the provider's event stream
  and writes one event per token) and a buffered handler (\<open>api/chat.js\<close>). A second
  copy of the buffered handler differs from \<open>api/chat.js\<close> in the text of its
  template and in the sampling temperature only, and is not modelled apart.

  The definitions come first: JavaScript values and the built-in operations the source
  uses, \<open>JSON.parse\<close>, \<open>TextDecoder\<close>, then the functions of the source under their
  own names. The provider and the environment are parameters of the handlers.
\<close>

section \<open>JavaScript strings and values\<close>

text \<open>
  A JavaScript string is a sequence of 16-bit code units: \<open>length\<close>, \<open>slice\<close>,
  \<open>startsWith\<close> and \<open>trim\<close> all count code units. Literals of the source are written
  \<open>js ''...''\<close>.
\<close>

type_synonym cu = "16 word"
type_synonym jsstring = "cu list"

definition js :: "string \<Rightarrow> jsstring" where
  "js s = map of_char s"

text \<open>\<open>String.prototype.startsWith(p)\<close>.\<close>

fun startsWith :: "jsstring \<Rightarrow> jsstring \<Rightarrow> bool" where
  "startsWith s [] = True"
| "startsWith [] (p # ps) = False"
| "startsWith (c # cs) (p # ps) = (c = p \<and> startsWith cs ps)"

text \<open>
  \<open>String.prototype.trim()\<close> removes the code units of WhiteSpace and LineTerminator
  (ECMA-262) from both ends.
\<close>

definition is_js_space :: "cu \<Rightarrow> bool" where
  "is_js_space c \<longleftrightarrow>
     c = 0x09 \<or> c = 0x0A \<or> c = 0x0B \<or> c = 0x0C \<or> c = 0x0D \<or> c = 0x20 \<or> c = 0xA0 \<or>
     c = 0x1680 \<or> (0x2000 \<le> c \<and> c \<le> 0x200A) \<or> c = 0x2028 \<or> c = 0x2029 \<or>
     c = 0x202F \<or> c = 0x205F \<or> c = 0x3000 \<or> c = 0xFEFF"

definition trim :: "jsstring \<Rightarrow> jsstring" where
  "trim s = rev (dropWhile is_js_space (rev (dropWhile is_js_space s)))"

text \<open>
  \<open>String.prototype.split('\n')\<close>: the pieces between the newlines, never an empty
  array (the empty string splits into one empty piece).
\<close>

fun split_nl :: "jsstring \<Rightarrow> jsstring list" where
  "split_nl [] = [[]]"
| "split_nl (c # cs) =
     (if c = 0x0A then [] # split_nl cs
      else (case split_nl cs of [] \<Rightarrow> [[c]] | l # ls \<Rightarrow> (c # l) # ls))"

text \<open>
  The values that \<open>JSON.parse\<close> produces, which are also the values a request body can
  hold. A number is kept as the exact decimal \<open>m * 10 ^ e\<close> of its literal; \<open>undefined\<close>
  is \<open>None\<close> of a \<open>json option\<close>. An object keeps its members in source order, and a
  later member of the same name overrides an earlier one.
\<close>

datatype json =
    JNull
  | JBool bool
  | JNumber int int
  | JString jsstring
  | JArray "json list"
  | JObject "(jsstring \<times> json) list"

datatype js_error = TypeError

text \<open>
  A number literal is converted to the nearest double, ties to even: it becomes \<open>0\<close>
  exactly when its magnitude is at most \<open>2 ^ -1075\<close>, half of the least subnormal.
\<close>

definition number_nonzero :: "int \<Rightarrow> int \<Rightarrow> bool" where
  "number_nonzero m e \<longleftrightarrow> m \<noteq> 0 \<and> (0 \<le> e \<or> 10 ^ nat (- e) < \<bar>m\<bar> * 2 ^ 1075)"

text \<open>ToBoolean, as used by \<open>||\<close>, \<open>!\<close> and \<open>if\<close>.\<close>

fun truthy :: "json option \<Rightarrow> bool" where
  "truthy None = False"
| "truthy (Some JNull) = False"
| "truthy (Some (JBool b)) = b"
| "truthy (Some (JNumber m e)) = number_nonzero m e"
| "truthy (Some (JString s)) = (s \<noteq> [])"
| "truthy (Some (JArray xs)) = True"
| "truthy (Some (JObject ms)) = True"

text \<open>
  Property access \<open>v.name\<close> for the names the source reads (\<open>choices\<close>, \<open>delta\<close>,
  \<open>content\<close>, \<open>message\<close>, \<open>question\<close>, \<open>context\<close>, \<open>history\<close>, \<open>title\<close>, \<open>body\<close>,
  \<open>role\<close>): none of them is defined by a built-in prototype, so only an object's own
  member answers. Reading a property of \<open>null\<close> throws.
\<close>

definition member :: "(jsstring \<times> json) list \<Rightarrow> jsstring \<Rightarrow> json option" where
  "member ms name = map_of (rev ms) name"

fun get_prop :: "json \<Rightarrow> jsstring \<Rightarrow> js_error + json option" where
  "get_prop JNull name = Inl TypeError"
| "get_prop (JObject ms) name = Inr (member ms name)"
| "get_prop v name = Inr None"

text \<open>Indexed access \<open>v[0]\<close>: the first element, the first code unit, or the member \<open>"0"\<close>.\<close>

fun get_first :: "json \<Rightarrow> js_error + json option" where
  "get_first JNull = Inl TypeError"
| "get_first (JArray xs) = Inr (case xs of [] \<Rightarrow> None | x # _ \<Rightarrow> Some x)"
| "get_first (JString s) = Inr (case s of [] \<Rightarrow> None | c # _ \<Rightarrow> Some (JString [c]))"
| "get_first (JObject ms) = Inr (member ms (js ''0''))"
| "get_first v = Inr None"

text \<open>Optional chaining: \<open>v?.name\<close> and \<open>v?.[0]\<close> are \<open>undefined\<close> when \<open>v\<close> is nullish.\<close>

fun opt_prop :: "json option \<Rightarrow> jsstring \<Rightarrow> json option" where
  "opt_prop None name = None"
| "opt_prop (Some JNull) name = None"
| "opt_prop (Some (JObject ms)) name = member ms name"
| "opt_prop (Some v) name = None"

fun opt_first :: "json option \<Rightarrow> json option" where
  "opt_first None = None"
| "opt_first (Some JNull) = None"
| "opt_first (Some v) = (case get_first v of Inl _ \<Rightarrow> None | Inr r \<Rightarrow> r)"

section \<open>\<open>JSON.parse\<close>\<close>

text \<open>
  The JSON grammar of ECMA-404, which \<open>JSON.parse\<close> accepts: a lexer, then a pushdown
  recogniser that builds the value. \<open>None\<close> is the SyntaxError.
\<close>

datatype token =
    TLBrace | TRBrace | TLBracket | TRBracket | TColon | TComma
  | TStr jsstring | TNum int int | TTrue | TFalse | TNull

definition is_digit :: "cu \<Rightarrow> bool" where
  "is_digit c \<longleftrightarrow> 0x30 \<le> c \<and> c \<le> 0x39"

definition hex_val :: "cu \<Rightarrow> nat option" where
  "hex_val c =
     (if 0x30 \<le> c \<and> c \<le> 0x39 then Some (unat c - 0x30)
      else if 0x41 \<le> c \<and> c \<le> 0x46 then Some (unat c - 0x41 + 10)
      else if 0x61 \<le> c \<and> c \<le> 0x66 then Some (unat c - 0x61 + 10)
      else None)"

text \<open>The character that the escape \<open>\c\<close> stands for, \<open>\u\<close> apart.\<close>

definition escape :: "cu \<Rightarrow> cu option" where
  "escape c =
     (if c = 0x22 \<or> c = 0x5C \<or> c = 0x2F then Some c
      else if c = 0x62 then Some 0x08
      else if c = 0x66 then Some 0x0C
      else if c = 0x6E then Some 0x0A
      else if c = 0x72 then Some 0x0D
      else if c = 0x74 then Some 0x09
      else None)"

definition cons_str :: "cu \<Rightarrow> (jsstring \<times> jsstring) option \<Rightarrow> (jsstring \<times> jsstring) option" where
  "cons_str c r = (case r of None \<Rightarrow> None | Some (s, rest) \<Rightarrow> Some (c # s, rest))"

text \<open>The body of a string literal after its opening quote, and what follows it.\<close>

fun lex_string :: "jsstring \<Rightarrow> (jsstring \<times> jsstring) option" where
  "lex_string [] = None"
| "lex_string (c # cs) =
     (if c = 0x22 then Some ([], cs)
      else if c = 0x5C then
        (case cs of
           [] \<Rightarrow> None
         | e # r \<Rightarrow>
             if e = 0x75 then
               (case r of
                  h1 # h2 # h3 # h4 # r' \<Rightarrow>
                    (case (hex_val h1, hex_val h2, hex_val h3, hex_val h4) of
                       (Some a, Some b, Some c, Some d) \<Rightarrow>
                         cons_str (of_nat (((a * 16 + b) * 16 + c) * 16 + d)) (lex_string r')
                     | _ \<Rightarrow> None)
                | _ \<Rightarrow> None)
             else (case escape e of None \<Rightarrow> None | Some x \<Rightarrow> cons_str x (lex_string r)))
      else if c < 0x20 then None
      else cons_str c (lex_string cs))"

definition digits_val :: "jsstring \<Rightarrow> nat" where
  "digits_val ds = foldl (\<lambda>n d. 10 * n + (unat d - 0x30)) 0 ds"

text \<open>
  A number literal: \<open>-? (0 | [1-9][0-9]*) (. [0-9]+)? ([eE] [+-]? [0-9]+)?\<close>, with its
  mantissa, its decimal exponent and what follows it.
\<close>

definition lex_exponent :: "jsstring \<Rightarrow> (int \<times> jsstring) option" where
  "lex_exponent s =
     (case s of
        [] \<Rightarrow> Some (0, [])
      | c # cs \<Rightarrow>
          if c = 0x65 \<or> c = 0x45 then
            (let neg = (case cs of [] \<Rightarrow> False | d # _ \<Rightarrow> d = 0x2D);
                 ds = (case cs of [] \<Rightarrow> [] | d # r \<Rightarrow> if d = 0x2B \<or> d = 0x2D then r else cs);
                 es = takeWhile is_digit ds
             in if es = [] then None
                else Some (if neg then - int (digits_val es) else int (digits_val es),
                           dropWhile is_digit ds))
          else Some (0, s))"

definition lex_fraction :: "jsstring \<Rightarrow> (jsstring \<times> jsstring) option" where
  "lex_fraction s =
     (case s of
        [] \<Rightarrow> Some ([], [])
      | c # cs \<Rightarrow>
          if c = 0x2E then
            (let fs = takeWhile is_digit cs
             in if fs = [] then None else Some (fs, dropWhile is_digit cs))
          else Some ([], s))"

definition lex_int :: "jsstring \<Rightarrow> (jsstring \<times> jsstring) option" where
  "lex_int s =
     (case s of
        [] \<Rightarrow> None
      | c # cs \<Rightarrow>
          if c = 0x30 then Some ([c], cs)
          else if is_digit c then Some (takeWhile is_digit s, dropWhile is_digit s)
          else None)"

definition lex_number :: "jsstring \<Rightarrow> ((int \<times> int) \<times> jsstring) option" where
  "lex_number s =
     (let neg = (case s of [] \<Rightarrow> False | c # _ \<Rightarrow> c = 0x2D)
      in case lex_int (if neg then tl s else s) of
           None \<Rightarrow> None
         | Some (ds, s1) \<Rightarrow>
             (case lex_fraction s1 of
                None \<Rightarrow> None
              | Some (fs, s2) \<Rightarrow>
                  (case lex_exponent s2 of
                     None \<Rightarrow> None
                   | Some (ex, s3) \<Rightarrow>
                       Some ((if neg then - int (digits_val (ds @ fs))
                              else int (digits_val (ds @ fs)),
                              ex - int (length fs)), s3))))"

definition cons_tok :: "token \<Rightarrow> token list option \<Rightarrow> token list option" where
  "cons_tok t r = map_option ((#) t) r"

lemma lex_string_shorter: "lex_string s = Some (t, r) \<Longrightarrow> length r < length s"
proof (induction s arbitrary: t r rule: lex_string.induct)
  case 1
  then show ?case by simp
next
  case (2 c cs)
  show ?case
    using "2.prems" "2.IH"
    by (fastforce simp: cons_str_def
        split: if_splits list.splits option.splits prod.splits)
qed

lemma lex_exponent_shorter: "lex_exponent s = Some (x, r) \<Longrightarrow> length r \<le> length s"
  by (auto simp: lex_exponent_def Let_def split: list.splits if_splits
      intro: le_trans [OF length_dropWhile_le] le_SucI)

lemma lex_fraction_shorter: "lex_fraction s = Some (x, r) \<Longrightarrow> length r \<le> length s"
  by (auto simp: lex_fraction_def Let_def split: list.splits if_splits
      intro: le_trans [OF length_dropWhile_le] le_SucI)

lemma lex_int_shorter: "lex_int s = Some (x, r) \<Longrightarrow> length r < length s"
  by (auto simp: lex_int_def split: list.splits if_splits
      intro: le_imp_less_Suc [OF length_dropWhile_le])

lemma lex_number_shorter:
  assumes "lex_number s = Some (x, r)"
  shows "length r < length s"
proof -
  from assms obtain ds s1 fs s2 ex where
    i: "lex_int (if (case s of [] \<Rightarrow> False | c # _ \<Rightarrow> c = 0x2D) then tl s else s) = Some (ds, s1)"
    and f: "lex_fraction s1 = Some (fs, s2)" and e: "lex_exponent s2 = Some (ex, r)"
    by (auto simp: lex_number_def Let_def split: option.splits prod.splits)
  have "length s1 < length s"
    using lex_int_shorter [OF i] by (auto split: if_splits intro: less_le_trans)
  with lex_fraction_shorter [OF f] lex_exponent_shorter [OF e] show ?thesis
    by linarith
qed

function lex :: "jsstring \<Rightarrow> token list option" where
  "lex [] = Some []"
| "lex (c # cs) =
     (if c = 0x20 \<or> c = 0x09 \<or> c = 0x0A \<or> c = 0x0D then lex cs
      else if c = 0x7B then cons_tok TLBrace (lex cs)
      else if c = 0x7D then cons_tok TRBrace (lex cs)
      else if c = 0x5B then cons_tok TLBracket (lex cs)
      else if c = 0x5D then cons_tok TRBracket (lex cs)
      else if c = 0x3A then cons_tok TColon (lex cs)
      else if c = 0x2C then cons_tok TComma (lex cs)
      else if c = 0x22 then
        (case lex_string cs of
           None \<Rightarrow> None
         | Some (s, rest) \<Rightarrow> cons_tok (TStr s) (lex rest))
      else if c = 0x2D \<or> is_digit c then
        (case lex_number (c # cs) of
           None \<Rightarrow> None
         | Some ((m, e), rest) \<Rightarrow> cons_tok (TNum m e) (lex rest))
      else if startsWith (c # cs) (js ''true'') then cons_tok TTrue (lex (drop 3 cs))
      else if startsWith (c # cs) (js ''false'') then cons_tok TFalse (lex (drop 4 cs))
      else if startsWith (c # cs) (js ''null'') then cons_tok TNull (lex (drop 3 cs))
      else None)"
  by pat_completeness auto
termination
proof (relation "measure length")
qed (auto dest: lex_string_shorter lex_number_shorter)

text \<open>
  The recogniser. A frame of the stack is a container waiting for a nested value: an
  array with its elements so far, or an object with its members so far and the pending
  name.
\<close>

datatype frame = FArr "json list" | FObj "(jsstring \<times> json) list" jsstring

datatype pstate =
    PValue "frame list"
  | PArrStart "frame list"
  | PArrNext "frame list" "json list"
  | PObjStart "frame list"
  | PObjName "frame list" "(jsstring \<times> json) list"
  | PObjColon "frame list" "(jsstring \<times> json) list" jsstring
  | PObjNext "frame list" "(jsstring \<times> json) list"
  | PEnd json

text \<open>A value is complete: it is the result, or it goes into the container on top.\<close>

fun complete :: "frame list \<Rightarrow> json \<Rightarrow> pstate" where
  "complete [] v = PEnd v"
| "complete (FArr es # st) v = PArrNext st (es @ [v])"
| "complete (FObj ms k # st) v = PObjNext st (ms @ [(k, v)])"

fun value_start :: "frame list \<Rightarrow> token \<Rightarrow> pstate option" where
  "value_start st (TStr s) = Some (complete st (JString s))"
| "value_start st (TNum m e) = Some (complete st (JNumber m e))"
| "value_start st TTrue = Some (complete st (JBool True))"
| "value_start st TFalse = Some (complete st (JBool False))"
| "value_start st TNull = Some (complete st JNull)"
| "value_start st TLBracket = Some (PArrStart st)"
| "value_start st TLBrace = Some (PObjStart st)"
| "value_start st t = None"

fun pstep :: "pstate \<Rightarrow> token \<Rightarrow> pstate option" where
  "pstep (PValue st) t = value_start st t"
| "pstep (PArrStart st) t =
     (if t = TRBracket then Some (complete st (JArray [])) else value_start (FArr [] # st) t)"
| "pstep (PArrNext st es) t =
     (if t = TComma then Some (PValue (FArr es # st))
      else if t = TRBracket then Some (complete st (JArray es))
      else None)"
| "pstep (PObjStart st) t =
     (case t of
        TRBrace \<Rightarrow> Some (complete st (JObject []))
      | TStr k \<Rightarrow> Some (PObjColon st [] k)
      | _ \<Rightarrow> None)"
| "pstep (PObjName st ms) t = (case t of TStr k \<Rightarrow> Some (PObjColon st ms k) | _ \<Rightarrow> None)"
| "pstep (PObjColon st ms k) t = (if t = TColon then Some (PValue (FObj ms k # st)) else None)"
| "pstep (PObjNext st ms) t =
     (if t = TComma then Some (PObjName st ms)
      else if t = TRBrace then Some (complete st (JObject ms))
      else None)"
| "pstep (PEnd v) t = None"

fun prun :: "pstate \<Rightarrow> token list \<Rightarrow> json option" where
  "prun (PEnd v) [] = Some v"
| "prun p [] = None"
| "prun p (t # ts) = (case pstep p t of None \<Rightarrow> None | Some p' \<Rightarrow> prun p' ts)"

definition JSON_parse :: "jsstring \<Rightarrow> json option" where
  "JSON_parse s = (case lex s of None \<Rightarrow> None | Some ts \<Rightarrow> prun (PValue []) ts)"

section \<open>\<open>TextDecoder\<close>\<close>

text \<open>
  \<open>new TextDecoder()\<close> decodes UTF-8, replaces malformed input by U+FFFD and drops a
  leading byte order mark. With \<open>{ stream: true }\<close> it keeps the bytes of an unfinished
  character for the next call. The state is that of the UTF-8 decoder of the WHATWG
  Encoding Standard, with the flag \<open>bom_seen\<close> of the TextDecoder object.
\<close>

record text_decoder =
  code_point :: nat
  bytes_seen :: nat
  bytes_needed :: nat
  lower_boundary :: nat
  upper_boundary :: nat
  bom_seen :: bool

definition new_TextDecoder :: text_decoder where
  "new_TextDecoder =
     \<lparr>code_point = 0, bytes_seen = 0, bytes_needed = 0,
      lower_boundary = 0x80, upper_boundary = 0xBF, bom_seen = False\<rparr>"

text \<open>A byte that arrives when no character is pending; the code points it completes.\<close>

definition utf8_lead :: "text_decoder \<Rightarrow> nat \<Rightarrow> text_decoder \<times> nat list" where
  "utf8_lead d b =
     (if b \<le> 0x7F then (d, [b])
      else if 0xC2 \<le> b \<and> b \<le> 0xDF then
        (d\<lparr>bytes_needed := 1, code_point := b AND 0x1F\<rparr>, [])
      else if 0xE0 \<le> b \<and> b \<le> 0xEF then
        (d\<lparr>lower_boundary := (if b = 0xE0 then 0xA0 else lower_boundary d),
           upper_boundary := (if b = 0xED then 0x9F else upper_boundary d),
           bytes_needed := 2, code_point := b AND 0xF\<rparr>, [])
      else if 0xF0 \<le> b \<and> b \<le> 0xF4 then
        (d\<lparr>lower_boundary := (if b = 0xF0 then 0x90 else lower_boundary d),
           upper_boundary := (if b = 0xF4 then 0x8F else upper_boundary d),
           bytes_needed := 3, code_point := b AND 0x7\<rparr>, [])
      else (d, [0xFFFD]))"

definition utf8_byte :: "text_decoder \<Rightarrow> nat \<Rightarrow> text_decoder \<times> nat list" where
  "utf8_byte d b =
     (if bytes_needed d = 0 then utf8_lead d b
      else if b < lower_boundary d \<or> upper_boundary d < b then
        (case utf8_lead
                (d\<lparr>code_point := 0, bytes_needed := 0, bytes_seen := 0,
                   lower_boundary := 0x80, upper_boundary := 0xBF\<rparr>) b of
           (d', cps) \<Rightarrow> (d', 0xFFFD # cps))
      else
        (let d1 = d\<lparr>lower_boundary := 0x80, upper_boundary := 0xBF,
                     code_point := push_bit 6 (code_point d) OR (b AND 0x3F),
                     bytes_seen := bytes_seen d + 1\<rparr>
         in if bytes_seen d1 \<noteq> bytes_needed d1 then (d1, [])
            else (d1\<lparr>code_point := 0, bytes_needed := 0, bytes_seen := 0\<rparr>, [code_point d1])))"

text \<open>A code point as UTF-16: one code unit, or a surrogate pair.\<close>

definition utf16 :: "nat \<Rightarrow> jsstring" where
  "utf16 cp =
     (if cp < 0x10000 then [of_nat cp]
      else [of_nat (0xD800 + (cp - 0x10000) div 0x400), of_nat (0xDC00 + (cp - 0x10000) mod 0x400)])"

text \<open>The output of the decoder: the first code point of the stream is dropped if it is U+FEFF.\<close>

fun serialize :: "text_decoder \<Rightarrow> nat list \<Rightarrow> text_decoder \<times> jsstring" where
  "serialize d [] = (d, [])"
| "serialize d (cp # cps) =
     (if bom_seen d then (case serialize d cps of (d', out) \<Rightarrow> (d', utf16 cp @ out))
      else
        (case serialize (d\<lparr>bom_seen := True\<rparr>) cps of
           (d', out) \<Rightarrow> (d', if cp = 0xFEFF then out else utf16 cp @ out)))"

text \<open>\<open>decoder.decode(value, { stream: true })\<close>: the text, and the decoder afterwards.\<close>

fun decode :: "text_decoder \<Rightarrow> string \<Rightarrow> jsstring \<times> text_decoder" where
  "decode d [] = ([], d)"
| "decode d (b # bs) =
     (case utf8_byte d (of_char b) of
        (d1, cps) \<Rightarrow>
          (case serialize d1 cps of
             (d2, out) \<Rightarrow> (case decode d2 bs of (rest, d3) \<Rightarrow> (out @ rest, d3))))"

section \<open>The stream relay (the streaming handler's read loop)\<close>

text \<open>
  What the handler does to the response object \<open>res\<close>, call by call.
  \<open>WriteToken t\<close> is \<open>res.write(`data: ${JSON.stringify({ token })}\n\n`)\<close> for the
  token value \<open>t\<close>, \<open>WriteDone\<close> is \<open>res.write('data: [DONE]\n\n')\<close>;
  \<open>JsonError m\<close> and \<open>JsonReply m\<close> are \<open>res.json({ error: m })\<close> and
  \<open>res.json({ reply: m })\<close>.
\<close>

datatype res_call =
    SetHeader jsstring jsstring
  | Status nat
  | End
  | JsonError jsstring
  | JsonReply jsstring
  | WriteToken json
  | WriteDone

text \<open>\<open>parsed.choices?.[0]?.delta?.content\<close>; only the first access can throw.\<close>

definition delta_content :: "json \<Rightarrow> js_error + json option" where
  "delta_content parsed =
     (case get_prop parsed (js ''choices'') of
        Inl e \<Rightarrow> Inl e
      | Inr choices \<Rightarrow> Inr (opt_prop (opt_prop (opt_first choices) (js ''delta'')) (js ''content'')))"

text \<open>
  The \<open>for (const line of lines)\<close> loop: \<open>continue\<close> on a line without the prefix,
  \<open>break\<close> after the sentinel, and the \<open>try\<close>/\<open>catch\<close> that swallows what
  \<open>JSON.parse\<close> and the property access throw.
\<close>

fun for_lines :: "jsstring list \<Rightarrow> res_call list" where
  "for_lines [] = []"
| "for_lines (line # lines) =
     (if \<not> startsWith line (js ''data: '') then for_lines lines
      else
        (let payload = trim (drop 6 line)
         in if payload = js ''[DONE]'' then [WriteDone]
            else
              (case JSON_parse payload of
                 None \<Rightarrow> for_lines lines
               | Some parsed \<Rightarrow>
                   (case delta_content parsed of
                      Inl e \<Rightarrow> for_lines lines
                    | Inr None \<Rightarrow> for_lines lines
                    | Inr (Some token) \<Rightarrow>
                        if truthy (Some token) then WriteToken token # for_lines lines
                        else for_lines lines))))"

text \<open>
  The \<open>while (true)\<close> loop over the reads of the upstream body, which are the elements
  of the list; the empty list is \<open>done\<close>. \<open>lines.pop()\<close> takes the last piece, which is
  the new \<open>buffer\<close>.
\<close>

fun read_loop :: "text_decoder \<Rightarrow> jsstring \<Rightarrow> string list \<Rightarrow> res_call list" where
  "read_loop decoder buffer [] = []"
| "read_loop decoder buffer (v # reads) =
     (case decode decoder v of
        (text, decoder') \<Rightarrow>
          (let lines = split_nl (buffer @ text)
           in for_lines (butlast lines) @ read_loop decoder' (last lines) reads))"

section \<open>The prompt assembler\<close>

text \<open>
  ToString, as a template literal and \<open>String(...)\<close> apply it. The digits that
  Number::toString gives the double of a number literal are not modelled: they are the
  parameter \<open>num\<close>, and everything below holds for every such function. An array is
  its elements joined by commas, \<open>null\<close> elements as the empty string. A plain object
  is \<open>[object Object]\<close>, unless it has a member \<open>toString\<close> of its own: that is never
  callable, and the conversion throws.
\<close>

fun to_string :: "(int \<Rightarrow> int \<Rightarrow> jsstring) \<Rightarrow> json \<Rightarrow> js_error + jsstring"
  and join_elems :: "(int \<Rightarrow> int \<Rightarrow> jsstring) \<Rightarrow> json list \<Rightarrow> js_error + jsstring" where
  "to_string num JNull = Inr (js ''null'')"
| "to_string num (JBool b) = Inr (if b then js ''true'' else js ''false'')"
| "to_string num (JNumber m e) = Inr (num m e)"
| "to_string num (JString s) = Inr s"
| "to_string num (JArray xs) = join_elems num xs"
| "to_string num (JObject ms) =
     (if member ms (js ''toString'') = None then Inr (js ''[object Object]'') else Inl TypeError)"
| "join_elems num [] = Inr []"
| "join_elems num (x # xs) =
     (case (if x = JNull then Inr [] else to_string num x) of
        Inl e \<Rightarrow> Inl e
      | Inr s \<Rightarrow>
          if xs = [] then Inr s
          else (case join_elems num xs of Inl e \<Rightarrow> Inl e | Inr r \<Rightarrow> Inr (s @ js '','' @ r)))"

text \<open>\<open>Array.prototype.join(sep)\<close> on an array of strings.\<close>

fun join_with :: "jsstring \<Rightarrow> jsstring list \<Rightarrow> jsstring" where
  "join_with sep [] = []"
| "join_with sep [b] = b"
| "join_with sep (b # bs) = b @ sep @ join_with sep bs"

text \<open>The decimal digits of an array index plus one, \<open>${i + 1}\<close>.\<close>

fun dec :: "nat \<Rightarrow> jsstring" where
  "dec n = (if n < 10 then [of_nat (0x30 + n)] else dec (n div 10) @ [of_nat (0x30 + n mod 10)])"

declare dec.simps [simp del]

definition MAX_CONTEXT_ITEMS :: nat where "MAX_CONTEXT_ITEMS = 5"
definition MAX_BODY_LENGTH :: nat where "MAX_BODY_LENGTH = 2800"
definition MAX_HISTORY :: nat where "MAX_HISTORY = 10"

text \<open>
  \<open>x || d\<close> for a default \<open>d\<close>, and \<open>v.slice(0, n)\<close>: a string and an array have the
  method, any other value that \<open>||\<close> lets through does not, and the call throws.
\<close>

definition or_else :: "json option \<Rightarrow> json \<Rightarrow> json" where
  "or_else x d = (case x of None \<Rightarrow> d | Some v \<Rightarrow> if truthy (Some v) then v else d)"

fun slice0 :: "nat \<Rightarrow> json \<Rightarrow> js_error + json" where
  "slice0 n (JString s) = Inr (JString (take n s))"
| "slice0 n (JArray xs) = Inr (JArray (take n xs))"
| "slice0 n v = Inl TypeError"

text \<open>
  The templates, as the template literals of the source evaluate: \<open>\n\<close> is a line
  feed; in the streaming handler's template \<open>\[\<close> and \<open>\]\<close> are the brackets
  alone, and the \<open>\t\<close> of \<open>\text\<close> and the \<open>\f\<close> of \<open>\frac\<close> are a tab and a
  form feed.
\<close>

definition persona :: jsstring where
  \<open>persona = js (
       ''You are Metris AI, a friendly and knowledgeable support assistant '' @
       ''for Metris Energy, a solar asset management platform used by asset '' @
       ''managers, O&M providers, and their customers.\<newline>'' @
       ''\<newline>'' @
       ''Your personality:\<newline>'' @
       ''- Warm, approachable, and genuinely helpful. Like a knowledgeable '' @
       ''colleague, not a robot\<newline>'' @
       ''- Use natural, conversational language. Say "you" and "your", not '' @
       ''"the user"\<newline>'' @
       ''- Keep things clear and concise, but don\'t be cold or overly formal\<newline>'' @
       ''- It\'s fine to say "Great question!" or "Happy to help with that" '' @
       ''when it feels natural, but don\'t overdo it\<newline>'' @
       ''- If something is a common question, reassure them it comes up a '' @
       ''lot\<newline>'' @
       ''- Use short paragraphs. Break up longer answers so they\'re easy '' @
       ''to scan\<newline>'' @
       ''\<newline>'' @
       ''Writing style:\<newline>'' @
       ''- Never use em dashes. Use commas, full stops, or separate sentences '' @
       ''instead\<newline>'' @
       ''- Never use the word "actually"\<newline>'' @
       ''- Avoid dramatic or exaggerated language. No "incredibly", "absolutely", '' @
       ''"game-changing", "revolutionary", etc. Just be straightforward and '' @
       ''genuine\<newline>'' @
       ''- NEVER use LaTeX, MathJax, or any math notation like [ ], '' @
       [CHR 0x09] @
       ''ext{}, '' @
       [CHR 0x0C] @
       ''rac{}, etc. Write all formulas in plain text, e.g. "CO2 Savings '' @
       ''= Generation (kWh) x 0.207074 (kg CO2/kWh)". The chat has no math '' @
       ''renderer so LaTeX will show as raw ugly text\<newline>'' @
       ''- For subscripts like CO2, just write CO2 in plain text\<newline>'' @
       ''- When writing numbered lists, use standard markdown: "1. First '' @
       ''item\<newline>'' @
       ''2. Second item\<newline>'' @
       ''3. Third item" with no blank lines between items\<newline>'' @
       ''\<newline>'' @
       ''Source citations:\<newline>'' @
       ''- At the end of your answer, on a new line, add a "Sources:" section '' @
       ''listing the article titles you drew from\<newline>'' @
       ''- Format each source as: Sources: Article Title 1, Article Title '' @
       ''2\<newline>'' @
       ''- Only cite articles you used. If you didn\'t use any, skip the '' @
       ''Sources line\<newline>'' @
       ''\<newline>'' @
       ''Honesty and uncertainty:\<newline>'' @
       ''- Answer ONLY from the knowledge base articles provided below. Do '' @
       ''not invent or assume information\<newline>'' @
       ''- If you are not 100% sure about something, say so clearly. Use '' @
       ''phrases like "I\'m not certain about this" or "I don\'t have the '' @
       ''detail on that" rather than guessing\<newline>'' @
       ''- NEVER make up an answer. It is far better to say you don\'t know '' @
       ''than to give wrong information\<newline>'' @
       ''- If the answer isn\'t covered in the articles, or you\'re only '' @
       ''partially confident, tell them honestly and direct them to email '' @
       ''support@metrisenergy.com for a definitive answer\<newline>'' @
       ''- When you\'re uncertain, always end with something like: "For a '' @
       ''definitive answer, I\'d recommend emailing support@metrisenergy.com '' @
       ''directly. The team typically responds within 2 hours."\<newline>'' @
       ''- Never fabricate features, numbers, formulas, or processes. If '' @
       ''a specific number or detail isn\'t in the articles, don\'t guess '' @
       ''it\<newline>'' @
       ''- You have conversation history, so handle follow-up questions naturally\<newline>'' @
       ''\<newline>'' @
       ''Knowledge base articles:\<newline>'' @
       ''\<newline>'')\<close>

definition persona_chat :: jsstring where
  \<open>persona_chat = js (
       ''You are Metris AI, the support assistant for Metris Energy\'s solar '' @
       ''asset management platform. Answer the user\'s question using ONLY '' @
       ''the following knowledge base articles. If the answer is not in these '' @
       ''articles, say so and suggest they browse the knowledge base or contact '' @
       ''support@metrisenergy.com. Keep answers concise and helpful. Do not '' @
       ''make up information.\<newline>'' @
       ''\<newline>'')\<close>

text \<open>
  The callback of \<open>.map((item, i) => ...)\<close> in the streaming handler's
  \<open>buildSystemPrompt\<close>, and the map itself, which stops at the first throw.
\<close>

definition article_block :: "(int \<Rightarrow> int \<Rightarrow> jsstring) \<Rightarrow> json \<Rightarrow> nat \<Rightarrow> js_error + jsstring" where
  "article_block num item i =
     (case get_prop item (js ''body'') of
        Inl e \<Rightarrow> Inl e
      | Inr b \<Rightarrow>
          (case slice0 MAX_BODY_LENGTH (or_else b (JString [])) of
             Inl e \<Rightarrow> Inl e
           | Inr body \<Rightarrow>
               (case get_prop item (js ''title'') of
                  Inl e \<Rightarrow> Inl e
                | Inr t \<Rightarrow>
                    (case to_string num (or_else t (JString (js ''Article''))) of
                       Inl e \<Rightarrow> Inl e
                     | Inr title \<Rightarrow>
                         (case to_string num body of
                            Inl e \<Rightarrow> Inl e
                          | Inr text \<Rightarrow>
                              Inr (js ''## [Article '' @ dec (i + 1) @ js ''] '' @ title @
                                   js ''\<newline>'' @ text))))))"

fun map_blocks :: "(json \<Rightarrow> nat \<Rightarrow> js_error + jsstring) \<Rightarrow> nat \<Rightarrow> json list \<Rightarrow> js_error + jsstring list" where
  "map_blocks f i [] = Inr []"
| "map_blocks f i (item # items) =
     (case f item i of
        Inl e \<Rightarrow> Inl e
      | Inr b \<Rightarrow> (case map_blocks f (i + 1) items of Inl e \<Rightarrow> Inl e | Inr bs \<Rightarrow> Inr (b # bs)))"

text \<open>
  \<open>(context || []).slice(0, MAX_CONTEXT_ITEMS).map(...)\<close>: a string has \<open>slice\<close> but
  its result has no \<open>map\<close>; any other value that is not an array has no \<open>slice\<close>.
\<close>

definition context_blocks :: "(json \<Rightarrow> nat \<Rightarrow> js_error + jsstring) \<Rightarrow> json option \<Rightarrow> js_error + jsstring list" where
  "context_blocks f context =
     (case or_else context (JArray []) of
        JArray items \<Rightarrow> map_blocks f 0 (take MAX_CONTEXT_ITEMS items)
      | _ \<Rightarrow> Inl TypeError)"

definition with_refs :: "jsstring \<Rightarrow> jsstring list \<Rightarrow> jsstring" where
  "with_refs template blocks =
     (let refs = join_with (js ''\<newline>\<newline>---\<newline>\<newline>'') blocks
      in template @ (if refs \<noteq> [] then refs else js ''No articles were provided.''))"

definition buildSystemPrompt :: "(int \<Rightarrow> int \<Rightarrow> jsstring) \<Rightarrow> json option \<Rightarrow> js_error + jsstring" where
  "buildSystemPrompt num context =
     (case context_blocks (article_block num) context of
        Inl e \<Rightarrow> Inl e
      | Inr blocks \<Rightarrow> Inr (with_refs persona blocks))"

text \<open>The same function of \<open>api/chat.js\<close>: no article number, another template.\<close>

definition article_block_chat :: "(int \<Rightarrow> int \<Rightarrow> jsstring) \<Rightarrow> json \<Rightarrow> nat \<Rightarrow> js_error + jsstring" where
  "article_block_chat num item i =
     (case get_prop item (js ''body'') of
        Inl e \<Rightarrow> Inl e
      | Inr b \<Rightarrow>
          (case slice0 MAX_BODY_LENGTH (or_else b (JString [])) of
             Inl e \<Rightarrow> Inl e
           | Inr body \<Rightarrow>
               (case get_prop item (js ''title'') of
                  Inl e \<Rightarrow> Inl e
                | Inr t \<Rightarrow>
                    (case to_string num (or_else t (JString (js ''Article''))) of
                       Inl e \<Rightarrow> Inl e
                     | Inr title \<Rightarrow>
                         (case to_string num body of
                            Inl e \<Rightarrow> Inl e
                          | Inr text \<Rightarrow> Inr (js ''## '' @ title @ js ''\<newline>'' @ text))))))"

definition buildSystemPrompt_chat :: "(int \<Rightarrow> int \<Rightarrow> jsstring) \<Rightarrow> json option \<Rightarrow> js_error + jsstring" where
  "buildSystemPrompt_chat num context =
     (case context_blocks (article_block_chat num) context of
        Inl e \<Rightarrow> Inl e
      | Inr blocks \<Rightarrow> Inr (with_refs persona_chat blocks))"

record message =
  role :: jsstring
  content :: jsstring

text \<open>
  The body of \<open>for (const msg of recent)\<close> in \<open>buildMessages\<close>: the message it pushes,
  if any.
\<close>

definition history_message :: "(int \<Rightarrow> int \<Rightarrow> jsstring) \<Rightarrow> json \<Rightarrow> js_error + message option" where
  "history_message num msg =
     (case get_prop msg (js ''role'') of
        Inl e \<Rightarrow> Inl e
      | Inr r \<Rightarrow>
          if r = Some (JString (js ''user'')) \<or> r = Some (JString (js ''assistant'')) then
            (case get_prop msg (js ''content'') of
               Inl e \<Rightarrow> Inl e
             | Inr c \<Rightarrow>
                 (case to_string num (or_else c (JString [])) of
                    Inl e \<Rightarrow> Inl e
                  | Inr text \<Rightarrow>
                      Inr (Some \<lparr>role = (case r of Some (JString s) \<Rightarrow> s | _ \<Rightarrow> []),
                                  content = take 2000 text\<rparr>)))
          else Inr None)"

fun push_recent :: "(int \<Rightarrow> int \<Rightarrow> jsstring) \<Rightarrow> message list \<Rightarrow> json list \<Rightarrow> js_error + message list" where
  "push_recent num messages [] = Inr messages"
| "push_recent num messages (msg # recent) =
     (case history_message num msg of
        Inl e \<Rightarrow> Inl e
      | Inr None \<Rightarrow> push_recent num messages recent
      | Inr (Some m) \<Rightarrow> push_recent num (messages @ [m]) recent)"

text \<open>
  The iteration of a string by \<open>for ... of\<close>: its code points, a surrogate pair as one
  string.
\<close>

fun code_points :: "jsstring \<Rightarrow> jsstring list" where
  "code_points [] = []"
| "code_points [c] = [[c]]"
| "code_points (c # d # s) =
     (if 0xD800 \<le> c \<and> c \<le> 0xDBFF \<and> 0xDC00 \<le> d \<and> d \<le> 0xDFFF then [c, d] # code_points s
      else [c] # code_points (d # s))"

text \<open>
  \<open>(history || []).slice(-MAX_HISTORY)\<close>, as the loop iterates it: the last elements
  of an array, the last code units of a string.
\<close>

definition recent_of :: "json option \<Rightarrow> js_error + json list" where
  "recent_of history =
     (case or_else history (JArray []) of
        JArray xs \<Rightarrow> Inr (drop (length xs - MAX_HISTORY) xs)
      | JString s \<Rightarrow> Inr (map JString (code_points (drop (length s - MAX_HISTORY) s)))
      | _ \<Rightarrow> Inl TypeError)"

definition buildMessages ::
  "(int \<Rightarrow> int \<Rightarrow> jsstring) \<Rightarrow> jsstring \<Rightarrow> jsstring \<Rightarrow> json option \<Rightarrow> js_error + message list" where
  "buildMessages num systemPrompt question history =
     (case recent_of history of
        Inl e \<Rightarrow> Inl e
      | Inr recent \<Rightarrow>
          (case push_recent num [\<lparr>role = js ''system'', content = systemPrompt\<rparr>] recent of
             Inl e \<Rightarrow> Inl e
           | Inr messages \<Rightarrow> Inr (messages @ [\<lparr>role = js ''user'', content = question\<rparr>])))"

section \<open>The handlers\<close>

text \<open>
  A request is its method and its body; \<open>req.body\<close> is \<open>undefined\<close>, a string still to
  be parsed, or a value the platform has parsed already. The environment is the value of
  \<open>process.env.OPENAI_API_KEY\<close>, \<open>undefined\<close> or a string. A run of a handler is the
  calls it makes on \<open>res\<close>, the calls of \<open>fetch\<close> it makes, and the exception that
  leaves it, if one does. Logging (\<open>console.error\<close>) is not part of a run.
\<close>

record request =
  req_method :: jsstring
  req_body :: "json option"

record fetch_call =
  bearer :: jsstring
  messages :: "message list"
  streaming :: bool

record run =
  res_calls :: "res_call list"
  fetches :: "fetch_call list"
  uncaught :: "js_error option"

text \<open>
  What the provider does with a streaming call: \<open>fetch\<close> rejects, the status is not
  ok, or the body arrives as a sequence of reads that ends with \<open>done\<close> or with a read
  that rejects. A buffered call gives the value of \<open>res.json()\<close> instead, \<open>None\<close> when
  that rejects.
\<close>

datatype stream_end = Closed | ReadFails

datatype upstream = UpRejects | UpNotOk | UpBody "string list" stream_end

datatype completion = CoRejects | CoNotOk | CoJson "json option"

definition cors_headers :: "res_call list" where
  "cors_headers =
     [SetHeader (js ''Access-Control-Allow-Origin'') (js ''*''),
      SetHeader (js ''Access-Control-Allow-Methods'') (js ''POST, OPTIONS''),
      SetHeader (js ''Access-Control-Allow-Headers'') (js ''Content-Type'')]"

definition sse_headers :: "res_call list" where
  "sse_headers =
     [SetHeader (js ''Content-Type'') (js ''text/event-stream''),
      SetHeader (js ''Cache-Control'') (js ''no-cache''),
      SetHeader (js ''Connection'') (js ''keep-alive'')]"

definition not_configured_reply :: jsstring where
  \<open>not_configured_reply =
     js (''Metris AI isn\'t configured for this environment. Please browse the articles '' @
         ''above or email support@metrisenergy.com.'')\<close>

definition trouble_reply :: jsstring where
  "trouble_reply =
     js (''Sorry, I had trouble answering that. Please try again or contact '' @
         ''support@metrisenergy.com.'')"

definition responds :: "res_call list \<Rightarrow> fetch_call list \<Rightarrow> run" where
  "responds calls fs = \<lparr>res_calls = cors_headers @ calls, fetches = fs, uncaught = None\<rparr>"

definition throws :: "js_error \<Rightarrow> run" where
  "throws e = \<lparr>res_calls = cors_headers, fetches = [], uncaught = Some e\<rparr>"

text \<open>\<open>!apiKey\<close> is false: the variable is set, and not to the empty string.\<close>

definition configured :: "jsstring option \<Rightarrow> bool" where
  "configured apiKey \<longleftrightarrow> (case apiKey of None \<Rightarrow> False | Some k \<Rightarrow> k \<noteq> [])"

text \<open>
  \<open>typeof req.body === 'string' ? JSON.parse(req.body) : req.body || {}\<close>; \<open>None\<close> is
  the SyntaxError that the \<open>catch\<close> turns into the reply \<open>Invalid JSON\<close>.
\<close>

definition read_body :: "json option \<Rightarrow> json option" where
  "read_body b =
     (case b of
        Some (JString s) \<Rightarrow> JSON_parse s
      | _ \<Rightarrow> Some (or_else b (JObject [])))"

text \<open>\<open>typeof v === 'string' ? v.trim() : ''\<close> and \<open>Array.isArray(v) ? v : []\<close>.\<close>

definition trimmed_string :: "json option \<Rightarrow> jsstring" where
  "trimmed_string v = (case v of Some (JString s) \<Rightarrow> trim s | _ \<Rightarrow> [])"

definition array_or_empty :: "json option \<Rightarrow> json" where
  "array_or_empty v = (case v of Some (JArray xs) \<Rightarrow> JArray xs | _ \<Rightarrow> JArray [])"

text \<open>
  The streaming handler from the call of \<open>fetch\<close> on: the \<open>try\<close> block and its
  \<open>catch\<close>.
\<close>

definition relay :: "upstream \<Rightarrow> res_call list" where
  "relay up =
     (case up of
        UpRejects \<Rightarrow> [Status 200, JsonReply trouble_reply]
      | UpNotOk \<Rightarrow> [Status 200, JsonReply trouble_reply]
      | UpBody reads ending \<Rightarrow>
          sse_headers @ read_loop new_TextDecoder [] reads @
          (case ending of
             Closed \<Rightarrow> [End]
           | ReadFails \<Rightarrow> [Status 200, JsonReply trouble_reply]))"

text \<open>The streaming handler.\<close>

definition handler ::
  "(int \<Rightarrow> int \<Rightarrow> jsstring) \<Rightarrow> jsstring option \<Rightarrow> upstream \<Rightarrow> request \<Rightarrow> run" where
  "handler num apiKey up req =
     (if req_method req = js ''OPTIONS'' then responds [Status 204, End] []
      else if req_method req \<noteq> js ''POST'' then
        responds [Status 405, JsonError (js ''Method not allowed'')] []
      else if \<not> configured apiKey then responds [Status 200, JsonReply not_configured_reply] []
      else
        (case read_body (req_body req) of
           None \<Rightarrow> responds [Status 400, JsonError (js ''Invalid JSON'')] []
         | Some body \<Rightarrow>
             (case get_prop body (js ''question'') of
                Inl e \<Rightarrow> throws e
              | Inr q \<Rightarrow>
                  (let question = trimmed_string q;
                       context = array_or_empty (opt_prop (Some body) (js ''context''));
                       history = array_or_empty (opt_prop (Some body) (js ''history''))
                   in if question = [] then
                        responds [Status 400, JsonError (js ''Missing question'')] []
                      else
                        (case buildSystemPrompt num (Some context) of
                           Inl e \<Rightarrow> throws e
                         | Inr systemPrompt \<Rightarrow>
                             (case buildMessages num systemPrompt question (Some history) of
                                Inl e \<Rightarrow> throws e
                              | Inr msgs \<Rightarrow>
                                  responds (relay up)
                                    [\<lparr>bearer = (case apiKey of None \<Rightarrow> [] | Some k \<Rightarrow> k),
                                      messages = msgs, streaming = True\<rparr>]))))))"

text \<open>
  \<open>callOpenAI\<close> of \<open>api/chat.js\<close>: the reply, or that it threw, and the calls of
  \<open>fetch\<close> made. \<open>data?.choices?.[0]?.message?.content\<close> must be a string.
\<close>

definition message_content :: "json option \<Rightarrow> json option" where
  "message_content data =
     opt_prop (opt_prop (opt_first (opt_prop data (js ''choices''))) (js ''message''))
       (js ''content'')"

definition callOpenAI ::
  "(int \<Rightarrow> int \<Rightarrow> jsstring) \<Rightarrow> jsstring \<Rightarrow> jsstring \<Rightarrow> json \<Rightarrow> completion \<Rightarrow>
     jsstring option \<times> fetch_call list" where
  "callOpenAI num apiKey question context co =
     (case buildSystemPrompt_chat num (Some context) of
        Inl e \<Rightarrow> (None, [])
      | Inr systemPrompt \<Rightarrow>
          (let call = \<lparr>bearer = apiKey,
                       messages = [\<lparr>role = js ''system'', content = systemPrompt\<rparr>,
                                   \<lparr>role = js ''user'', content = question\<rparr>],
                       streaming = False\<rparr>
           in case co of
                CoRejects \<Rightarrow> (None, [call])
              | CoNotOk \<Rightarrow> (None, [call])
              | CoJson data \<Rightarrow>
                  (case data of
                     None \<Rightarrow> (None, [call])
                   | Some d \<Rightarrow>
                       (case message_content (Some d) of
                          Some (JString c) \<Rightarrow> (Some (trim c), [call])
                        | _ \<Rightarrow> (None, [call])))))"

text \<open>The buffered handler of \<open>api/chat.js\<close>; its \<open>catch\<close> answers every throw with 500.\<close>

definition handler_chat ::
  "(int \<Rightarrow> int \<Rightarrow> jsstring) \<Rightarrow> jsstring option \<Rightarrow> completion \<Rightarrow> request \<Rightarrow> run" where
  "handler_chat num apiKey co req =
     (if req_method req = js ''OPTIONS'' then responds [Status 204, End] []
      else if req_method req \<noteq> js ''POST'' then
        responds [Status 405, JsonError (js ''Method not allowed'')] []
      else if \<not> configured apiKey then responds [Status 200, JsonReply not_configured_reply] []
      else
        (case read_body (req_body req) of
           None \<Rightarrow> responds [Status 400, JsonError (js ''Invalid JSON'')] []
         | Some body \<Rightarrow>
             (case get_prop body (js ''question'') of
                Inl e \<Rightarrow> throws e
              | Inr q \<Rightarrow>
                  (let question = trimmed_string q;
                       context = array_or_empty (opt_prop (Some body) (js ''context''))
                   in if question = [] then
                        responds [Status 400, JsonError (js ''Missing question'')] []
                      else
                        (case callOpenAI num (case apiKey of None \<Rightarrow> [] | Some k \<Rightarrow> k)
                                question context co of
                           (Some reply, fs) \<Rightarrow> responds [Status 200, JsonReply reply] fs
                         | (None, fs) \<Rightarrow> responds [Status 500, JsonReply trouble_reply] fs)))))"

section \<open>Inputs and notions of the statements\<close>

text \<open>
  The upstream stream of the decoder's test: two token frames, then the sentinel; and
  its complete lines.
\<close>

definition sample_stream :: string where
  \<open>sample_stream =
     ''data: {"choices":[{"delta":{"content":"Hel"}}]}\<newline>\<newline>'' @
     ''data: {"choices":[{"delta":{"content":"lo"}}]}\<newline>\<newline>data: [DONE]\<newline>\<newline>''\<close>

definition sample_lines :: "jsstring list" where
  \<open>sample_lines =
     [js ''data: {"choices":[{"delta":{"content":"Hel"}}]}'', [],
      js ''data: {"choices":[{"delta":{"content":"lo"}}]}'', [],
      js ''data: [DONE]'', []]\<close>





text \<open>
  A history turn as the interface declares it, \<open>{ role: string, content?: string }\<close>,
  here with any value or none as its role; and the specification's window over a
  history: the last ten turns, of these the turns of the user and of the assistant,
  each with its content cut at 2000 code units.
\<close>

record history_turn =
  turn_role :: "json option"
  turn_content :: "jsstring option"

definition turn_json :: "history_turn \<Rightarrow> json" where
  "turn_json t =
     JObject ((case turn_role t of None \<Rightarrow> [] | Some r \<Rightarrow> [(js ''role'', r)]) @
              (case turn_content t of None \<Rightarrow> [] | Some c \<Rightarrow> [(js ''content'', JString c)]))"

definition kept_turn :: "history_turn \<Rightarrow> bool" where
  "kept_turn t \<longleftrightarrow>
     turn_role t = Some (JString (js ''user'')) \<or> turn_role t = Some (JString (js ''assistant''))"

definition turn_message :: "history_turn \<Rightarrow> message" where
  "turn_message t =
     \<lparr>role = (if turn_role t = Some (JString (js ''user'')) then js ''user'' else js ''assistant''),
      content = take 2000 (case turn_content t of None \<Rightarrow> [] | Some c \<Rightarrow> c)\<rparr>"

definition retained_history :: "history_turn list \<Rightarrow> message list" where
  "retained_history h = map turn_message (filter kept_turn (drop (length h - 10) h))"

text \<open>The message that the loop of \<open>buildMessages\<close> pushes for an entry, if it pushes one.\<close>

definition pushed :: "(int \<Rightarrow> int \<Rightarrow> jsstring) \<Rightarrow> json \<Rightarrow> message option" where
  "pushed num msg = (case history_message num msg of Inr (Some m) \<Rightarrow> Some m | _ \<Rightarrow> None)"

section \<open>The relay: reads, lines and frames\<close>

text \<open>
  ASCII bytes decode one to one, whatever the reads are; splitting into lines commutes
  with cutting the text into two reads.
\<close>

lemma decode_ascii:
  "bytes_needed d = 0 \<Longrightarrow> \<forall>b\<in>set bs. of_char b < (0x80::nat) \<Longrightarrow>
     decode d bs = (js bs, d\<lparr>bom_seen := bom_seen d \<or> bs \<noteq> []\<rparr>)"
proof (induction bs arbitrary: d)
  case Nil
  then show ?case by (simp add: js_def)
next
  case (Cons b bs)
  have lt: "of_char b < (0x80::nat)" using Cons.prems by simp
  then have ne: "of_char b \<noteq> (0xFEFF::nat)" by simp
  have u: "utf8_byte d (of_char b) = (d, [of_char b])"
    using Cons.prems(1) lt by (simp add: utf8_byte_def utf8_lead_def)
  have s: "serialize d [of_char b] = (d\<lparr>bom_seen := True\<rparr>, [of_char b])"
    using lt ne by (cases "bom_seen d") (simp_all add: utf16_def of_nat_of_char)
  have "decode d (b # bs) =
      (case decode (d\<lparr>bom_seen := True\<rparr>) bs of (rest, d3) \<Rightarrow> ([of_char b] @ rest, d3))"
    by (simp add: u s del: serialize.simps)
  then show ?case
    using Cons.IH [of "d\<lparr>bom_seen := True\<rparr>"] Cons.prems
    by (simp add: js_def)
qed

lemma split_nl_nonempty: "split_nl s \<noteq> []"
  by (induction s) (auto split: list.splits)

lemma split_nl_append:
  "split_nl (a @ b) = butlast (split_nl a) @ split_nl (last (split_nl a) @ b)"
proof (induction a)
  case Nil
  then show ?case by simp
next
  case (Cons c a)
  show ?case
  proof (cases "c = 0x0A")
    case True
    then show ?thesis using Cons split_nl_nonempty [of a] by simp
  next
    case False
    obtain l ls where a: "split_nl a = l # ls"
      using split_nl_nonempty [of a] by (cases "split_nl a") auto
    show ?thesis
    proof (cases ls)
      case Nil
      then show ?thesis using False a Cons
        by (simp split: list.splits)
    next
      case (Cons l' ls')
      then show ?thesis using False a Cons.IH
        by (simp split: list.splits)
    qed
  qed
qed


lemma butlast_split_nl_append:
  "butlast (split_nl (a @ b)) =
     butlast (split_nl a) @ butlast (split_nl (last (split_nl a) @ b))"
  by (simp add: split_nl_append [of a b] butlast_append split_nl_nonempty)

lemma read_loop_two_ascii:
  assumes "\<forall>c\<in>set a. of_char c < (0x80::nat)" and "\<forall>c\<in>set b. of_char c < (0x80::nat)"
  shows "\<exists>xs ys. read_loop new_TextDecoder [] [a, b] = for_lines xs @ for_lines ys \<and>
           xs @ ys = butlast (split_nl (js (a @ b)))"
proof -
  have n: "bytes_needed new_TextDecoder = 0" by (simp add: new_TextDecoder_def)
  have d1: "decode new_TextDecoder a = (js a, new_TextDecoder\<lparr>bom_seen := a \<noteq> []\<rparr>)"
    using decode_ascii [OF n assms(1)] by (simp add: new_TextDecoder_def)
  have d2: "decode (new_TextDecoder\<lparr>bom_seen := a \<noteq> []\<rparr>) b =
      (js b, new_TextDecoder\<lparr>bom_seen := a \<noteq> [] \<or> b \<noteq> []\<rparr>)"
    using decode_ascii [of "new_TextDecoder\<lparr>bom_seen := a \<noteq> []\<rparr>" b] assms(2)
    by (simp add: new_TextDecoder_def)
  have "read_loop new_TextDecoder [] [a, b] =
      for_lines (butlast (split_nl (js a))) @
      for_lines (butlast (split_nl (last (split_nl (js a)) @ js b)))"
    by (simp add: d1 d2 Let_def)
  moreover have "butlast (split_nl (js a)) @ butlast (split_nl (last (split_nl (js a)) @ js b)) =
      butlast (split_nl (js (a @ b)))"
    unfolding js_def map_append by (rule butlast_split_nl_append [symmetric])
  ultimately show ?thesis by blast
qed

lemma sample_stream_lines: "butlast (split_nl (js sample_stream)) = sample_lines"
  by (simp add: sample_stream_def sample_lines_def js_def)

lemma sample_stream_ascii: "\<forall>c\<in>set sample_stream. of_char c < (0x80::nat)"
  by (simp add: sample_stream_def)

lemma line_Hel:
  \<open>for_lines (js ''data: {"choices":[{"delta":{"content":"Hel"}}]}'' # ls) =
     WriteToken (JString (js ''Hel'')) # for_lines ls\<close>
  by (simp add: js_def trim_def is_js_space_def JSON_parse_def cons_tok_def cons_str_def
      delta_content_def member_def)

lemma line_lo:
  \<open>for_lines (js ''data: {"choices":[{"delta":{"content":"lo"}}]}'' # ls) =
     WriteToken (JString (js ''lo'')) # for_lines ls\<close>
  by (simp add: js_def trim_def is_js_space_def JSON_parse_def cons_tok_def cons_str_def
      delta_content_def member_def)

lemma line_DONE: \<open>for_lines (js ''data: [DONE]'' # ls) = [WriteDone]\<close>
  by (simp add: js_def trim_def is_js_space_def)

lemma line_blank: \<open>for_lines ([] # ls) = for_lines ls\<close>
  by (simp add: js_def)


lemma sample_lines_split:
  assumes "xs @ ys = sample_lines"
  shows "for_lines xs @ for_lines ys =
     [WriteToken (JString (js ''Hel'')), WriteToken (JString (js ''lo'')), WriteDone]"
proof -
  from assms consider
      "xs = []" "ys = sample_lines"
    | "xs = take 1 sample_lines" "ys = drop 1 sample_lines"
    | "xs = take 2 sample_lines" "ys = drop 2 sample_lines"
    | "xs = take 3 sample_lines" "ys = drop 3 sample_lines"
    | "xs = take 4 sample_lines" "ys = drop 4 sample_lines"
    | "xs = take 5 sample_lines" "ys = drop 5 sample_lines"
    | "xs = sample_lines" "ys = []"
    unfolding sample_lines_def
    by (auto simp: append_eq_Cons_conv)
  then show ?thesis
    by cases (simp_all add: sample_lines_def line_Hel line_lo line_DONE line_blank
        del: for_lines.simps(2))
qed

lemma read_loop_ascii:
  assumes "bytes_needed d = 0" and "\<forall>c\<in>set v. of_char c < (0x80::nat)"
  shows "read_loop d buffer (v # reads) =
     for_lines (butlast (split_nl (buffer @ js v))) @
     read_loop (d\<lparr>bom_seen := bom_seen d \<or> v \<noteq> []\<rparr>) (last (split_nl (buffer @ js v))) reads"
  using decode_ascii [OF assms] by (simp add: Let_def)

lemma line_late:
  \<open>for_lines (js ''data: {"choices":[{"delta":{"content":"late"}}]}'' # ls) =
     WriteToken (JString (js ''late'')) # for_lines ls\<close>
  by (simp add: js_def trim_def is_js_space_def JSON_parse_def cons_tok_def cons_str_def
      delta_content_def member_def)








text \<open>
  C1. The stream of the two token frames \<open>Hel\<close> and \<open>lo\<close> and the sentinel line, cut
  into two reads after any number \<open>k\<close> of bytes (in the middle of a line or not, and
  with an empty first or second read), makes the relay write the token \<open>Hel\<close>, the
  token \<open>lo\<close> and the terminal event, in this order and nothing else.
\<close>

theorem relay_split_independent:
  "read_loop new_TextDecoder [] [take k sample_stream, drop k sample_stream] =
     [WriteToken (JString (js ''Hel'')), WriteToken (JString (js ''lo'')), WriteDone]"
proof -
  have a: "\<forall>c\<in>set (take k sample_stream). of_char c < (0x80::nat)"
    using sample_stream_ascii by (meson in_set_takeD)
  have b: "\<forall>c\<in>set (drop k sample_stream). of_char c < (0x80::nat)"
    using sample_stream_ascii by (meson in_set_dropD)
  from read_loop_two_ascii [OF a b] obtain xs ys where
    r: "read_loop new_TextDecoder [] [take k sample_stream, drop k sample_stream] =
          for_lines xs @ for_lines ys"
    and l: "xs @ ys = sample_lines"
    by (auto simp: sample_stream_lines)
  show ?thesis using sample_lines_split [OF l] r by simp
qed

text \<open>
  C2. The \<open>break\<close> on the sentinel leaves the \<open>for\<close> loop only: the \<open>while\<close> loop
  goes on reading. A token frame that arrives in a later read than the sentinel is
  written after the terminal event, while the same frame in the same read as the
  sentinel is dropped.
\<close>

theorem relay_continues_after_done:
  \<open>read_loop new_TextDecoder []
      [''data: [DONE]\<newline>'', ''data: {"choices":[{"delta":{"content":"late"}}]}\<newline>''] =
     [WriteDone, WriteToken (JString (js ''late''))] \<and>
   read_loop new_TextDecoder []
      [''data: [DONE]\<newline>data: {"choices":[{"delta":{"content":"late"}}]}\<newline>''] =
     [WriteDone]\<close>
proof -
  have s1: \<open>split_nl (js ''data: [DONE]\<newline>'') = [js ''data: [DONE]'', []]\<close>
    by (simp add: js_def)
  have s2: \<open>split_nl (js ''data: {"choices":[{"delta":{"content":"late"}}]}\<newline>'') =
      [js ''data: {"choices":[{"delta":{"content":"late"}}]}'', []]\<close>
    by (simp add: js_def)
  have s3: \<open>split_nl (js ''data: [DONE]\<newline>data: {"choices":[{"delta":{"content":"late"}}]}\<newline>'') =
      [js ''data: [DONE]'', js ''data: {"choices":[{"delta":{"content":"late"}}]}'', []]\<close>
    by (simp add: js_def)
  have n: "bytes_needed new_TextDecoder = 0" by (simp add: new_TextDecoder_def)
  have a: \<open>read_loop new_TextDecoder []
      [''data: [DONE]\<newline>'', ''data: {"choices":[{"delta":{"content":"late"}}]}\<newline>''] =
     [WriteDone, WriteToken (JString (js ''late''))]\<close>
    by (subst read_loop_ascii, simp add: n, simp, subst read_loop_ascii, simp add: n, simp)
      (simp add: s1 s2 line_DONE line_late del: for_lines.simps(2))
  have b: \<open>read_loop new_TextDecoder []
      [''data: [DONE]\<newline>data: {"choices":[{"delta":{"content":"late"}}]}\<newline>''] =
     [WriteDone]\<close>
    by (subst read_loop_ascii, simp add: n, simp)
      (simp add: s3 line_DONE del: for_lines.simps(2))
  from a b show ?thesis by blast
qed







section \<open>The prompt assembler: items, history and the message list\<close>

lemma names_distinct [simp]:
  "js ''title'' \<noteq> js ''body''" "js ''body'' \<noteq> js ''title''"
  "js ''role'' \<noteq> js ''content''" "js ''content'' \<noteq> js ''role''"
  "js ''user'' \<noteq> js ''system''" "js ''assistant'' \<noteq> js ''system''"
  by (simp_all add: js_def)

lemma get_prop_opt: "v \<noteq> JNull \<Longrightarrow> get_prop v name = Inr (opt_prop (Some v) name)"
  by (cases v) simp_all

subsection \<open>Knowledge items\<close>











lemma context_blocks_array:
  "context_blocks f (Some (JArray entries)) = map_blocks f 0 (take 5 entries)"
  by (simp add: context_blocks_def or_else_def MAX_CONTEXT_ITEMS_def)




subsection \<open>History turns\<close>

lemma turn_props:
  "get_prop (turn_json t) (js ''role'') = Inr (turn_role t)"
  "get_prop (turn_json t) (js ''content'') = Inr (map_option JString (turn_content t))"
  by (simp_all add: turn_json_def member_def split: option.splits)

lemma turn_content_string:
  "to_string num (or_else (map_option JString (turn_content t)) (JString [])) =
     Inr (case turn_content t of None \<Rightarrow> [] | Some c \<Rightarrow> c)"
  by (simp add: or_else_def split: option.splits)

lemma history_message_turn:
  "history_message num (turn_json t) = Inr (if kept_turn t then Some (turn_message t) else None)"
  by (auto simp: history_message_def turn_props turn_content_string kept_turn_def turn_message_def)

lemma push_recent_turns:
  "push_recent num acc (map turn_json ts) = Inr (acc @ map turn_message (filter kept_turn ts))"
  by (induction ts arbitrary: acc) (simp_all add: history_message_turn)

text \<open>The loop appends, for each entry in turn, the message it pushes for it.\<close>

lemma push_recent_pushed:
  "push_recent num acc recent = Inr out \<Longrightarrow> out = acc @ List.map_filter (pushed num) recent"
proof (induction recent arbitrary: acc)
  case Nil
  then show ?case by (simp add: List.map_filter_simps)
next
  case (Cons msg recent)
  show ?case
  proof (cases "history_message num msg")
    case (Inl e)
    with Cons.prems show ?thesis by simp
  next
    case (Inr r)
    show ?thesis
    proof (cases r)
      case None
      with Inr Cons.prems have "push_recent num acc recent = Inr out" by simp
      from Cons.IH [OF this] Inr None show ?thesis
        by (simp add: List.map_filter_simps pushed_def)
    next
      case (Some m)
      with Inr Cons.prems have "push_recent num (acc @ [m]) recent = Inr out" by simp
      from Cons.IH [OF this] Inr Some show ?thesis
        by (simp add: List.map_filter_simps pushed_def)
    qed
  qed
qed

lemma pushed_role:
  "pushed num msg = Some m \<Longrightarrow> role m = js ''user'' \<or> role m = js ''assistant''"
  by (auto simp: pushed_def history_message_def split: sum.splits option.splits if_splits)

lemma pushed_content: "pushed num msg = Some m \<Longrightarrow> length (content m) \<le> 2000"
  by (auto simp: pushed_def history_message_def split: sum.splits option.splits if_splits)

lemma pushed_only_chat_roles:
  "pushed num msg \<noteq> None \<Longrightarrow>
     opt_prop (Some msg) (js ''role'') = Some (JString (js ''user'')) \<or>
     opt_prop (Some msg) (js ''role'') = Some (JString (js ''assistant''))"
  by (cases "msg = JNull")
    (auto simp: pushed_def history_message_def get_prop_opt split: sum.splits option.splits if_splits)

lemma length_map_filter_le: "length (List.map_filter f xs) \<le> length xs"
  by (induction xs) (auto simp: List.map_filter_simps split: option.splits)

lemma buildMessages_result:
  assumes "buildMessages num systemPrompt question history = Inr msgs"
  shows "\<exists>recent. recent_of history = Inr recent \<and>
           msgs = \<lparr>role = js ''system'', content = systemPrompt\<rparr> #
                  List.map_filter (pushed num) recent @
                  [\<lparr>role = js ''user'', content = question\<rparr>]"
proof -
  from assms obtain recent out where
    r: "recent_of history = Inr recent"
    and p: "push_recent num [\<lparr>role = js ''system'', content = systemPrompt\<rparr>] recent = Inr out"
    and m: "msgs = out @ [\<lparr>role = js ''user'', content = question\<rparr>]"
    by (auto simp: buildMessages_def split: sum.splits)
  from push_recent_pushed [OF p] r m show ?thesis by simp
qed

text \<open>
  C4. For every history array of turns, \<open>buildMessages\<close> returns the system message,
  the specification's window over the history and the question: at most ten messages
  of the last ten turns, only those of the user and of the assistant, each content cut
  at 2000 code units. For every history array of any values for which a message list
  is returned, the messages between the first and the last are those pushed for the
  last ten entries: at most ten, only for entries whose role is \<open>user\<close> or
  \<open>assistant\<close>, each with a content of at most 2000 code units.
\<close>

theorem history_window:
  "buildMessages num systemPrompt question (Some (JArray (map turn_json h))) =
     Inr (\<lparr>role = js ''system'', content = systemPrompt\<rparr> # retained_history h @
          [\<lparr>role = js ''user'', content = question\<rparr>]) \<and>
   length (retained_history h) \<le> 10 \<and>
   (\<forall>m\<in>set (retained_history h).
      (role m = js ''user'' \<or> role m = js ''assistant'') \<and> length (content m) \<le> 2000) \<and>
   (\<forall>msgs. buildMessages num systemPrompt question (Some (JArray entries)) = Inr msgs \<longrightarrow>
      (\<exists>kept. msgs = \<lparr>role = js ''system'', content = systemPrompt\<rparr> # kept @
                      [\<lparr>role = js ''user'', content = question\<rparr>] \<and>
         kept = List.map_filter (pushed num) (drop (length entries - 10) entries) \<and>
         length kept \<le> 10 \<and>
         (\<forall>e\<in>set entries. pushed num e \<noteq> None \<longrightarrow>
            opt_prop (Some e) (js ''role'') = Some (JString (js ''user'')) \<or>
            opt_prop (Some e) (js ''role'') = Some (JString (js ''assistant''))) \<and>
         (\<forall>m\<in>set kept.
            (role m = js ''user'' \<or> role m = js ''assistant'') \<and> length (content m) \<le> 2000)))"
proof (intro conjI allI impI)
  have d: "drop (length h - 10) (map turn_json h) = map turn_json (drop (length h - 10) h)"
    by (simp add: drop_map)
  show "buildMessages num systemPrompt question (Some (JArray (map turn_json h))) =
     Inr (\<lparr>role = js ''system'', content = systemPrompt\<rparr> # retained_history h @
          [\<lparr>role = js ''user'', content = question\<rparr>])"
    by (simp add: buildMessages_def recent_of_def or_else_def MAX_HISTORY_def d
        push_recent_turns retained_history_def)
  have "length (filter kept_turn (drop (length h - 10) h)) \<le> length (drop (length h - 10) h)"
    by (rule length_filter_le)
  then show "length (retained_history h) \<le> 10"
    by (simp add: retained_history_def)
  show "\<forall>m\<in>set (retained_history h).
      (role m = js ''user'' \<or> role m = js ''assistant'') \<and> length (content m) \<le> 2000"
    by (auto simp: retained_history_def turn_message_def)
next
  fix msgs
  assume a: "buildMessages num systemPrompt question (Some (JArray entries)) = Inr msgs"
  let ?recent = "drop (length entries - 10) entries"
  let ?kept = "List.map_filter (pushed num) ?recent"
  have r: "recent_of (Some (JArray entries)) = Inr ?recent"
    by (simp add: recent_of_def or_else_def MAX_HISTORY_def)
  from buildMessages_result [OF a] r have
    1: "msgs = \<lparr>role = js ''system'', content = systemPrompt\<rparr> # ?kept @
                      [\<lparr>role = js ''user'', content = question\<rparr>]"
    by simp
  have "length ?kept \<le> length ?recent" by (rule length_map_filter_le)
  then have 2: "length ?kept \<le> 10" by simp
  have 3: "\<forall>e\<in>set entries. pushed num e \<noteq> None \<longrightarrow>
            opt_prop (Some e) (js ''role'') = Some (JString (js ''user'')) \<or>
            opt_prop (Some e) (js ''role'') = Some (JString (js ''assistant''))"
    using pushed_only_chat_roles by blast
  have 4: "\<forall>m\<in>set ?kept.
            (role m = js ''user'' \<or> role m = js ''assistant'') \<and> length (content m) \<le> 2000"
    using pushed_role pushed_content by (fastforce simp: List.map_filter_def)
  from 1 2 3 4 show "\<exists>kept. msgs = \<lparr>role = js ''system'', content = systemPrompt\<rparr> # kept @
                      [\<lparr>role = js ''user'', content = question\<rparr>] \<and>
         kept = List.map_filter (pushed num) (drop (length entries - 10) entries) \<and>
         length kept \<le> 10 \<and>
         (\<forall>e\<in>set entries. pushed num e \<noteq> None \<longrightarrow>
            opt_prop (Some e) (js ''role'') = Some (JString (js ''user'')) \<or>
            opt_prop (Some e) (js ''role'') = Some (JString (js ''assistant''))) \<and>
         (\<forall>m\<in>set kept.
            (role m = js ''user'' \<or> role m = js ''assistant'') \<and> length (content m) \<le> 2000)"
    by blast
qed

text \<open>
  A turn of another role, then eleven turns of the user with contents of 2001 code
  units: ten messages, contents of 2000. And a history whose entries are a turn of the
  user, an object of another role and a string.
\<close>

theorem history_window_witness:
  "buildMessages (\<lambda>m e. []) (js ''P'') (js ''Q'')
     (Some (JArray (map turn_json
        (\<lparr>turn_role = Some (JString (js ''system'')), turn_content = Some (js ''x'')\<rparr> #
         replicate 11 \<lparr>turn_role = Some (JString (js ''user'')),
                        turn_content = Some (replicate 2001 0x61)\<rparr>)))) =
     Inr (\<lparr>role = js ''system'', content = js ''P''\<rparr> #
          replicate 10 \<lparr>role = js ''user'', content = replicate 2000 0x61\<rparr> @
          [\<lparr>role = js ''user'', content = js ''Q''\<rparr>]) \<and>
   buildMessages (\<lambda>m e. []) (js ''P'') (js ''Q'')
     (Some (JArray [JObject [(js ''role'', JString (js ''user'')), (js ''content'', JString (js ''hi''))],
                    JObject [(js ''role'', JString (js ''tool''))],
                    JString (js ''x'')])) =
     Inr [\<lparr>role = js ''system'', content = js ''P''\<rparr>,
          \<lparr>role = js ''user'', content = js ''hi''\<rparr>,
          \<lparr>role = js ''user'', content = js ''Q''\<rparr>] \<and>
   (\<exists>kept. [\<lparr>role = js ''system'', content = js ''P''\<rparr>,
             \<lparr>role = js ''user'', content = js ''hi''\<rparr>,
             \<lparr>role = js ''user'', content = js ''Q''\<rparr>] =
            \<lparr>role = js ''system'', content = js ''P''\<rparr> # kept @
            [\<lparr>role = js ''user'', content = js ''Q''\<rparr>] \<and>
          length kept \<le> 10 \<and>
          (\<forall>m\<in>set kept.
             (role m = js ''user'' \<or> role m = js ''assistant'') \<and> length (content m) \<le> 2000))"
proof -
  let ?u = "\<lparr>turn_role = Some (JString (js ''user'')), turn_content = Some (replicate 2001 0x61)\<rparr>"
  let ?h = "\<lparr>turn_role = Some (JString (js ''system'')), turn_content = Some (js ''x'')\<rparr> #
         replicate 11 ?u"
  let ?es = "[JObject [(js ''role'', JString (js ''user'')), (js ''content'', JString (js ''hi''))],
                    JObject [(js ''role'', JString (js ''tool''))],
                    JString (js ''x'')]"
  note t = history_window [of "\<lambda>m e. []" "js ''P''" "js ''Q''" ?h ?es]
  have "drop 2 ?h = replicate 10 ?u" by (simp add: numeral_eq_Suc)
  then have "retained_history ?h = replicate 10 \<lparr>role = js ''user'', content = replicate 2000 0x61\<rparr>"
    by (simp add: retained_history_def kept_turn_def turn_message_def)
  with t have 1: "buildMessages (\<lambda>m e. []) (js ''P'') (js ''Q'') (Some (JArray (map turn_json ?h))) =
     Inr (\<lparr>role = js ''system'', content = js ''P''\<rparr> #
          replicate 10 \<lparr>role = js ''user'', content = replicate 2000 0x61\<rparr> @
          [\<lparr>role = js ''user'', content = js ''Q''\<rparr>])"
    by simp
  have 2: "buildMessages (\<lambda>m e. []) (js ''P'') (js ''Q'') (Some (JArray ?es)) =
     Inr [\<lparr>role = js ''system'', content = js ''P''\<rparr>,
          \<lparr>role = js ''user'', content = js ''hi''\<rparr>,
          \<lparr>role = js ''user'', content = js ''Q''\<rparr>]"
    by (simp add: buildMessages_def recent_of_def or_else_def MAX_HISTORY_def
        history_message_def member_def js_def)
  from t 2 have 3: "\<exists>kept. [\<lparr>role = js ''system'', content = js ''P''\<rparr>,
             \<lparr>role = js ''user'', content = js ''hi''\<rparr>,
             \<lparr>role = js ''user'', content = js ''Q''\<rparr>] =
            \<lparr>role = js ''system'', content = js ''P''\<rparr> # kept @
            [\<lparr>role = js ''user'', content = js ''Q''\<rparr>] \<and>
          length kept \<le> 10 \<and>
          (\<forall>m\<in>set kept.
             (role m = js ''user'' \<or> role m = js ''assistant'') \<and> length (content m) \<le> 2000)"
    by blast
  from 1 2 3 show ?thesis by blast
qed

text \<open>
  C5. Every message list that \<open>buildMessages\<close> returns, for any system prompt (that of
  \<open>buildSystemPrompt\<close> among them), question and history, is the system message, then
  the messages pushed for the recent history entries, one after the other in the order
  of the entries, then the user message with the question as it was passed. No message
  in between has the role \<open>system\<close>, so the list has exactly one system message.
\<close>

theorem message_list_shape:
  assumes "buildMessages num systemPrompt question history = Inr msgs"
  shows "\<exists>recent interior.
           recent_of history = Inr recent \<and>
           interior = List.map_filter (pushed num) recent \<and>
           msgs = \<lparr>role = js ''system'', content = systemPrompt\<rparr> # interior @
                  [\<lparr>role = js ''user'', content = question\<rparr>] \<and>
           hd msgs = \<lparr>role = js ''system'', content = systemPrompt\<rparr> \<and>
           last msgs = \<lparr>role = js ''user'', content = question\<rparr> \<and>
           (\<forall>m\<in>set interior. role m \<noteq> js ''system'') \<and>
           length (filter (\<lambda>m. role m = js ''system'') msgs) = 1"
proof -
  from buildMessages_result [OF assms] obtain recent where
    r: "recent_of history = Inr recent"
    and m: "msgs = \<lparr>role = js ''system'', content = systemPrompt\<rparr> #
                  List.map_filter (pushed num) recent @
                  [\<lparr>role = js ''user'', content = question\<rparr>]"
    by blast
  let ?interior = "List.map_filter (pushed num) recent"
  have i: "\<forall>m\<in>set ?interior. role m \<noteq> js ''system''"
    using pushed_role by (fastforce simp: List.map_filter_def)
  then have "filter (\<lambda>m. role m = js ''system'') ?interior = []"
    by (simp add: filter_empty_conv)
  then have "length (filter (\<lambda>m. role m = js ''system'') msgs) = 1"
    by (simp add: m)
  with r m i show ?thesis by simp
qed

text \<open>
  A history with an entry of another role in the middle and a content that is a number
  (the digits of a number are left to the parameter, here empty).
\<close>

theorem message_list_shape_witness:
  "buildMessages (\<lambda>m e. []) (js ''P'') (js ''Q'')
     (Some (JArray [JObject [(js ''role'', JString (js ''user'')), (js ''content'', JString (js ''hi''))],
                    JObject [(js ''role'', JString (js ''tool'')), (js ''content'', JString (js ''x''))],
                    JObject [(js ''role'', JString (js ''assistant'')), (js ''content'', JNumber 7 0)]])) =
     Inr [\<lparr>role = js ''system'', content = js ''P''\<rparr>,
          \<lparr>role = js ''user'', content = js ''hi''\<rparr>,
          \<lparr>role = js ''assistant'', content = []\<rparr>,
          \<lparr>role = js ''user'', content = js ''Q''\<rparr>] \<and>
   length (filter (\<lambda>m. role m = js ''system'')
     [\<lparr>role = js ''system'', content = js ''P''\<rparr>,
          \<lparr>role = js ''user'', content = js ''hi''\<rparr>,
          \<lparr>role = js ''assistant'', content = []\<rparr>,
          \<lparr>role = js ''user'', content = js ''Q''\<rparr>]) = 1"
proof -
  have n: "number_nonzero 7 0" by (simp add: number_nonzero_def)
  have b: "buildMessages (\<lambda>m e. []) (js ''P'') (js ''Q'')
     (Some (JArray [JObject [(js ''role'', JString (js ''user'')), (js ''content'', JString (js ''hi''))],
                    JObject [(js ''role'', JString (js ''tool'')), (js ''content'', JString (js ''x''))],
                    JObject [(js ''role'', JString (js ''assistant'')), (js ''content'', JNumber 7 0)]])) =
     Inr [\<lparr>role = js ''system'', content = js ''P''\<rparr>,
          \<lparr>role = js ''user'', content = js ''hi''\<rparr>,
          \<lparr>role = js ''assistant'', content = []\<rparr>,
          \<lparr>role = js ''user'', content = js ''Q''\<rparr>]"
    by (simp add: buildMessages_def recent_of_def or_else_def MAX_HISTORY_def
        history_message_def member_def js_def n)
  from message_list_shape [OF b]
  have c: "length (filter (\<lambda>m. role m = js ''system'')
     [\<lparr>role = js ''system'', content = js ''P''\<rparr>,
          \<lparr>role = js ''user'', content = js ''hi''\<rparr>,
          \<lparr>role = js ''assistant'', content = []\<rparr>,
          \<lparr>role = js ''user'', content = js ''Q''\<rparr>]) = 1"
    by blast
  from b c show ?thesis by (rule conjI)
qed

subsection \<open>Entries that are not knowledge items\<close>

text \<open>
  C7. A context entry whose body is the number 5: \<open>item.body || ''\<close> lets the number
  through, a number has no \<open>slice\<close>, and both variants of \<open>buildSystemPrompt\<close> throw
  a TypeError. In the streaming handler the call stands before the \<open>try\<close> block and
  the exception leaves the handler, with no response beyond the CORS headers; in the
  buffered handler the \<open>catch\<close> answers 500, without a call of the provider.
\<close>

theorem non_string_body_throws:
  "buildSystemPrompt num (Some (JArray [JObject [(js ''title'', JString (js ''T'')),
                                                   (js ''body'', JNumber 5 0)]])) = Inl TypeError \<and>
   buildSystemPrompt_chat num (Some (JArray [JObject [(js ''title'', JString (js ''T'')),
                                                   (js ''body'', JNumber 5 0)]])) = Inl TypeError \<and>
   handler num (Some (js ''key'')) up
     \<lparr>req_method = js ''POST'',
      req_body = Some (JObject [(js ''question'', JString (js ''hi'')),
                                (js ''context'', JArray [JObject [(js ''title'', JString (js ''T'')),
                                                                  (js ''body'', JNumber 5 0)]])])\<rparr> =
     throws TypeError \<and>
   handler_chat num (Some (js ''key'')) co
     \<lparr>req_method = js ''POST'',
      req_body = Some (JObject [(js ''question'', JString (js ''hi'')),
                                (js ''context'', JArray [JObject [(js ''title'', JString (js ''T'')),
                                                                  (js ''body'', JNumber 5 0)]])])\<rparr> =
     responds [Status 500, JsonReply trouble_reply] []"
proof -
  have n: "number_nonzero 5 0" by (simp add: number_nonzero_def)
  have t: "trim (js ''hi'') = js ''hi''" by (simp add: trim_def js_def is_js_space_def)
  have a: "article_block num (JObject [(js ''title'', JString (js ''T'')), (js ''body'', JNumber 5 0)]) 0 =
      Inl TypeError"
    by (simp add: article_block_def member_def js_def or_else_def n)
  have a': "article_block_chat num (JObject [(js ''title'', JString (js ''T'')), (js ''body'', JNumber 5 0)]) 0 =
      Inl TypeError"
    by (simp add: article_block_chat_def member_def js_def or_else_def n)
  have 1: "buildSystemPrompt num (Some (JArray [JObject [(js ''title'', JString (js ''T'')),
                                                   (js ''body'', JNumber 5 0)]])) = Inl TypeError"
    by (simp add: buildSystemPrompt_def context_blocks_array a)
  have 2: "buildSystemPrompt_chat num (Some (JArray [JObject [(js ''title'', JString (js ''T'')),
                                                   (js ''body'', JNumber 5 0)]])) = Inl TypeError"
    by (simp add: buildSystemPrompt_chat_def context_blocks_array a')
  have q: "js ''question'' \<noteq> js ''context''" "js ''context'' \<noteq> js ''question''"
     "js ''hi'' \<noteq> []" "js ''key'' \<noteq> []" "js ''POST'' \<noteq> js ''OPTIONS''"
    by (simp_all add: js_def)
  have 3: "handler num (Some (js ''key'')) up
     \<lparr>req_method = js ''POST'',
      req_body = Some (JObject [(js ''question'', JString (js ''hi'')),
                                (js ''context'', JArray [JObject [(js ''title'', JString (js ''T'')),
                                                                  (js ''body'', JNumber 5 0)]])])\<rparr> =
     throws TypeError"
    by (simp add: handler_def configured_def read_body_def or_else_def member_def
        trimmed_string_def array_or_empty_def t q 1 Let_def)
  have 4: "handler_chat num (Some (js ''key'')) co
     \<lparr>req_method = js ''POST'',
      req_body = Some (JObject [(js ''question'', JString (js ''hi'')),
                                (js ''context'', JArray [JObject [(js ''title'', JString (js ''T'')),
                                                                  (js ''body'', JNumber 5 0)]])])\<rparr> =
     responds [Status 500, JsonReply trouble_reply] []"
    by (simp add: handler_chat_def configured_def read_body_def or_else_def member_def
        trimmed_string_def array_or_empty_def t q 2 Let_def callOpenAI_def)
  from 1 2 3 4 show ?thesis by blast
qed

section \<open>The handlers: method, credential, body, question\<close>

lemma methods_distinct [simp]:
  "js ''OPTIONS'' \<noteq> js ''POST''" "js ''POST'' \<noteq> js ''OPTIONS''"
  by (simp_all add: js_def)

lemma trim_blank:
  assumes "list_all is_js_space q"
  shows "trim q = []"
proof -
  have d: "dropWhile is_js_space q = []"
    using assms by (induction q) simp_all
  show ?thesis unfolding trim_def d by simp
qed




text \<open>
  C9, as stated, fails when no key is configured: a POST request without a question
  gets status 200 and the not-configured reply from both handlers, not 400.
\<close>

theorem missing_question_counterexample:
  "res_calls (handler (\<lambda>m e. []) None UpRejects \<lparr>req_method = js ''POST'', req_body = Some (JObject [])\<rparr>) =
     cors_headers @ [Status 200, JsonReply not_configured_reply] \<and>
   res_calls (handler (\<lambda>m e. []) None UpRejects \<lparr>req_method = js ''POST'', req_body = Some (JObject [])\<rparr>) \<noteq>
     cors_headers @ [Status 400, JsonError (js ''Missing question'')] \<and>
   res_calls (handler_chat (\<lambda>m e. []) None CoRejects \<lparr>req_method = js ''POST'', req_body = Some (JObject [])\<rparr>) =
     cors_headers @ [Status 200, JsonReply not_configured_reply] \<and>
   res_calls (handler_chat (\<lambda>m e. []) None CoRejects \<lparr>req_method = js ''POST'', req_body = Some (JObject [])\<rparr>) \<noteq>
     cors_headers @ [Status 400, JsonError (js ''Missing question'')]"
  by (simp add: configured_def handler_def handler_chat_def responds_def)

text \<open>
  C9, amended. For every POST request that arrives when a key is configured and whose
  body is, or parses to, a value other than \<open>null\<close>: if the question of the body is
  missing, is not a string, or is a string of white space only (the empty string among
  them), both handlers answer 400 with the error \<open>Missing question\<close> and do not call
  the provider.
\<close>

theorem missing_question_rejected:
  assumes "configured apiKey" and "req_method req = js ''POST''"
    and "read_body (req_body req) = Some body" and "body \<noteq> JNull"
    and "\<forall>q. opt_prop (Some body) (js ''question'') = Some (JString q) \<longrightarrow> list_all is_js_space q"
  shows "handler num apiKey up req =
           responds [Status 400, JsonError (js ''Missing question'')] [] \<and>
         handler_chat num apiKey co req =
           responds [Status 400, JsonError (js ''Missing question'')] [] \<and>
         fetches (handler num apiKey up req) = [] \<and>
         fetches (handler_chat num apiKey co req) = []"
proof -
  have q: "trimmed_string (opt_prop (Some body) (js ''question'')) = []"
    using assms(5) by (auto simp: trimmed_string_def trim_blank split: option.splits json.splits)
  show ?thesis
    using assms(1-4) q
    by (simp add: handler_def handler_chat_def get_prop_opt Let_def responds_def)
qed

text \<open>A body sent as text, whose question is two spaces.\<close>

theorem missing_question_rejected_witness:
  \<open>configured (Some (js ''key'')) \<and>
   read_body (Some (JString (js ''{"question":"  ","context":[]}''))) =
     Some (JObject [(js ''question'', JString (js ''  '')), (js ''context'', JArray [])]) \<and>
   handler (\<lambda>m e. []) (Some (js ''key'')) (UpBody [] Closed)
     \<lparr>req_method = js ''POST'', req_body = Some (JString (js ''{"question":"  ","context":[]}''))\<rparr> =
     responds [Status 400, JsonError (js ''Missing question'')] [] \<and>
   handler_chat (\<lambda>m e. []) (Some (js ''key'')) (CoJson None)
     \<lparr>req_method = js ''POST'', req_body = Some (JString (js ''{"question":"  ","context":[]}''))\<rparr> =
     responds [Status 400, JsonError (js ''Missing question'')] []\<close>
proof -
  have c: \<open>configured (Some (js ''key''))\<close> by (simp add: configured_def js_def)
  have p: \<open>read_body (Some (JString (js ''{"question":"  ","context":[]}''))) =
     Some (JObject [(js ''question'', JString (js ''  '')), (js ''context'', JArray [])])\<close>
    by (simp add: read_body_def JSON_parse_def js_def cons_tok_def cons_str_def)
  have q: \<open>\<forall>q. opt_prop (Some (JObject [(js ''question'', JString (js ''  '')), (js ''context'', JArray [])]))
      (js ''question'') = Some (JString q) \<longrightarrow> list_all is_js_space q\<close>
    by (simp add: member_def js_def is_js_space_def)
  show ?thesis
    using c p missing_question_rejected [OF c _ _ _ q, of
        \<open>\<lparr>req_method = js ''POST'', req_body = Some (JString (js ''{"question":"  ","context":[]}''))\<rparr>\<close>
        "\<lambda>m e. []" "UpBody [] Closed" "CoJson None"]
    by simp
qed

text \<open>
  C10. The credential check stands before the parsing of the body and the validation
  of the question. When no key is configured, both handlers answer every POST request
  with status 200 and the not-configured reply, whatever its body; and for a request of
  any method neither handler answers 400, with \<open>Invalid JSON\<close> or with
  \<open>Missing question\<close>, nor lets an exception escape.
\<close>

theorem credential_check_first:
  assumes "\<not> configured apiKey"
  shows "(req_method req = js ''POST'' \<longrightarrow>
            res_calls (handler num apiKey up req) =
              cors_headers @ [Status 200, JsonReply not_configured_reply] \<and>
            res_calls (handler_chat num apiKey co req) =
              cors_headers @ [Status 200, JsonReply not_configured_reply]) \<and>
         Status 400 \<notin> set (res_calls (handler num apiKey up req)) \<and>
         Status 400 \<notin> set (res_calls (handler_chat num apiKey co req)) \<and>
         JsonError (js ''Invalid JSON'') \<notin> set (res_calls (handler num apiKey up req)) \<and>
         JsonError (js ''Invalid JSON'') \<notin> set (res_calls (handler_chat num apiKey co req)) \<and>
         JsonError (js ''Missing question'') \<notin> set (res_calls (handler num apiKey up req)) \<and>
         JsonError (js ''Missing question'') \<notin> set (res_calls (handler_chat num apiKey co req)) \<and>
         uncaught (handler num apiKey up req) = None \<and>
         uncaught (handler_chat num apiKey co req) = None"
proof -
  have e: "js ''Method not allowed'' \<noteq> js ''Invalid JSON''"
    "js ''Method not allowed'' \<noteq> js ''Missing question''"
    by (simp_all add: js_def)
  show ?thesis
    using assms e by (simp add: handler_def handler_chat_def responds_def cors_headers_def)
qed

text \<open>A body that is not JSON, with the key unset.\<close>

theorem credential_check_first_witness:
  \<open>\<not> configured None \<and>
   read_body (Some (JString (js ''{"question":''))) = None \<and>
   res_calls (handler (\<lambda>m e. []) None UpNotOk
     \<lparr>req_method = js ''POST'', req_body = Some (JString (js ''{"question":''))\<rparr>) =
     cors_headers @ [Status 200, JsonReply not_configured_reply] \<and>
   res_calls (handler_chat (\<lambda>m e. []) None CoNotOk
     \<lparr>req_method = js ''POST'', req_body = Some (JString (js ''{"question":''))\<rparr>) =
     cors_headers @ [Status 200, JsonReply not_configured_reply]\<close>
proof -
  have c: "\<not> configured None" by (simp add: configured_def)
  have p: \<open>read_body (Some (JString (js ''{"question":''))) = None\<close>
    by (simp add: read_body_def JSON_parse_def js_def cons_tok_def cons_str_def)
  show ?thesis
    using c p credential_check_first [OF c, of
        \<open>\<lparr>req_method = js ''POST'', req_body = Some (JString (js ''{"question":''))\<rparr>\<close>
        "\<lambda>m e. []" UpNotOk CoNotOk]
    by simp
qed

end
